theory Spec2Isabelle
  imports Main "HOL-Library.Word"
begin

unbundle bit_operations_syntax

section \<open>Values of the Go runtime and of database/sql\<close>

text \<open>
  A \<^verbatim>\<open>time.Time\<close> is modelled by its instant: the number of nanoseconds since the zero
  instant (January 1, year 1, 00:00:00 UTC). The location and the monotonic reading are
  not modelled. \<^verbatim>\<open>t.IsZero()\<close> reports whether \<open>t\<close> is the zero instant.
\<close>

type_synonym Time = int

definition IsZero :: "Time \<Rightarrow> bool" where
  "IsZero t = (t = 0)"

text \<open>
  A \<^verbatim>\<open>float64\<close> is its IEEE-754 bit pattern. \<^verbatim>\<open>a == b\<close> on floats: neither is a NaN, and
  the bits agree or both are a zero of either sign.
\<close>

type_synonym float64 = "64 word"

definition float64_isNaN :: "float64 \<Rightarrow> bool" where
  "float64_isNaN f =
     (f AND 0x7FF0000000000000 = 0x7FF0000000000000 \<and> f AND 0x000FFFFFFFFFFFFF \<noteq> 0)"

definition float64_isZero :: "float64 \<Rightarrow> bool" where
  "float64_isZero f = (f AND 0x7FFFFFFFFFFFFFFF = 0)"

definition float64_eq :: "float64 \<Rightarrow> float64 \<Rightarrow> bool" where
  "float64_eq a b =
     (if float64_isNaN a then False
      else if float64_isNaN b then False
      else (a = b \<or> (float64_isZero a \<and> float64_isZero b)))"

text \<open>
  The errors of the package. \<open>ErrNoRows\<close> is \<^verbatim>\<open>sql.ErrNoRows\<close>; \<open>UnexpectedRows got want\<close>
  is the error built by \<^verbatim>\<open>fmt.Errorf("unexpected number of rows: got %d, want %d", got, n)\<close>;
  \<open>UnsupportedType T\<close> is \<^verbatim>\<open>fmt.Errorf("unsupported type %T", v)\<close>; \<open>CannotType T\<close> is
  \<^verbatim>\<open>fmt.Errorf("cannot type for %T", a)\<close>; \<open>BackendError msg\<close> is any error that the
  driver, sqlx or pgx produce.
\<close>

datatype error =
    ErrNoRows
  | UnexpectedRows "64 word" "64 word"
  | UnsupportedType string
  | CannotType string
  | BackendError string

text \<open>
  The nullable wrappers \<^verbatim>\<open>sql.NullBool\<close>, \<^verbatim>\<open>sql.NullByte\<close>, ..., \<^verbatim>\<open>sql.NullTime\<close> are all a
  value and a \<^verbatim>\<open>Valid\<close> flag; one record stands for them, its first field for the field
  \<^verbatim>\<open>Bool\<close>, \<^verbatim>\<open>Byte\<close>, ..., \<^verbatim>\<open>Time\<close>.
\<close>

record 'a sql_Null =
  Value :: 'a
  Valid :: bool

text \<open>
  A \<^verbatim>\<open>sql.Result\<close> is what its method \<^verbatim>\<open>RowsAffected()\<close> returns: an error or an
  \<^verbatim>\<open>int64\<close>.
\<close>

type_synonym sql_Result = "error + 64 word"

text \<open>The arguments handed to a statement (\<^verbatim>\<open>...any\<close>).\<close>

datatype sqlarg = ArgTime Time | ArgString string | ArgInt int | ArgNull

section \<open>helpers.go\<close>

definition NullBool :: "bool \<Rightarrow> bool sql_Null" where
  "NullBool b = \<lparr>Value = b, Valid = b\<rparr>"

definition NullByte :: "8 word \<Rightarrow> 8 word sql_Null" where
  "NullByte b = \<lparr>Value = b, Valid = (b \<noteq> 0)\<rparr>"

definition NullFloat64 :: "float64 \<Rightarrow> float64 sql_Null" where
  "NullFloat64 f = \<lparr>Value = f, Valid = (\<not> float64_eq f 0)\<rparr>"

definition NullInt16 :: "16 word \<Rightarrow> 16 word sql_Null" where
  "NullInt16 i = \<lparr>Value = i, Valid = (i \<noteq> 0)\<rparr>"

definition NullInt32 :: "32 word \<Rightarrow> 32 word sql_Null" where
  "NullInt32 i = \<lparr>Value = i, Valid = (i \<noteq> 0)\<rparr>"

definition NullInt64 :: "64 word \<Rightarrow> 64 word sql_Null" where
  "NullInt64 i = \<lparr>Value = i, Valid = (i \<noteq> 0)\<rparr>"

definition NullString :: "string \<Rightarrow> string sql_Null" where
  "NullString s = \<lparr>Value = s, Valid = (s \<noteq> [])\<rparr>"

definition NullTime :: "Time \<Rightarrow> Time sql_Null" where
  "NullTime t = \<lparr>Value = t, Valid = (\<not> IsZero t)\<rparr>"

section \<open>model.go\<close>

text \<open>
  \<^verbatim>\<open>Base\<close> carries the four columns every model has. A model is a struct that embeds
  \<^verbatim>\<open>Base\<close> and answers \<^verbatim>\<open>Select()\<close>, \<^verbatim>\<open>Insert()\<close>, \<^verbatim>\<open>Update()\<close> and \<^verbatim>\<open>Delete()\<close> with its query
  templates; \<open>WithExecInsert\<close> tells whether its dynamic type implements
  \<^verbatim>\<open>ModelWithExecInsert\<close>. A \<^verbatim>\<open>ModelWithHardDelete\<close> answers \<^verbatim>\<open>HardDelete()\<close> too.
\<close>

record Base =
  ID :: string
  CreatedAt :: Time
  UpdatedAt :: Time
  DeletedAt :: "Time sql_Null"

record Model = Base +
  SelectQ :: string
  InsertQ :: string
  UpdateQ :: string
  DeleteQ :: string
  WithExecInsert :: bool

record ModelWithHardDelete = Model +
  HardDeleteQ :: string

definition GetID :: "'a Base_scheme \<Rightarrow> string" where
  "GetID m = ID m"

definition SetID :: "'a Base_scheme \<Rightarrow> string \<Rightarrow> 'a Base_scheme" where
  "SetID m id' = m\<lparr>ID := id'\<rparr>"

definition SetCreatedAt :: "'a Base_scheme \<Rightarrow> Time \<Rightarrow> 'a Base_scheme" where
  "SetCreatedAt m t = m\<lparr>CreatedAt := t\<rparr>"

definition SetUpdatedAt :: "'a Base_scheme \<Rightarrow> Time \<Rightarrow> 'a Base_scheme" where
  "SetUpdatedAt m t = m\<lparr>UpdatedAt := t\<rparr>"

definition SetDeletedAt :: "'a Base_scheme \<Rightarrow> Time \<Rightarrow> 'a Base_scheme" where
  "SetDeletedAt m t = m\<lparr>DeletedAt := \<lparr>Value = t, Valid = (\<not> IsZero t)\<rparr>\<rparr>"

section \<open>sequel.go: the row-count verifier\<close>

definition RowsAffected :: "sql_Result \<Rightarrow> 64 word \<Rightarrow> error option" where
  "RowsAffected res n =
     (case res of
        Inl err \<Rightarrow> Some err
      | Inr got \<Rightarrow>
          if got = n then None
          else if got = 0 then Some ErrNoRows
          else Some (UnexpectedRows got n))"

section \<open>The array codec\<close>

text \<open>
  The source handed to a scanner by database/sql (\<^verbatim>\<open>src any\<close>): the nil interface (SQL
  NULL), a \<^verbatim>\<open>[]byte\<close> (a nil slice is \<open>None\<close>), a \<^verbatim>\<open>string\<close>, or a value of any other
  dynamic type, which is kept by the name of that type (what \<^verbatim>\<open>%T\<close> prints).
  A Go slice \<^verbatim>\<open>[]T\<close> is a \<open>'a list option\<close>: \<open>None\<close> is the nil slice, \<open>Some []\<close> the
  empty one.
\<close>

datatype src =
    SrcNil
  | SrcBytes "8 word list option"
  | SrcString string
  | SrcOther string

record 'a pgtype_Array =
  Elements :: "'a list option"
  ArrayValid :: bool

definition bytes_of_string :: "string \<Rightarrow> 8 word list" where
  "bytes_of_string s = map (\<lambda>c. of_nat (of_char c)) s"

text \<open>
  \<^verbatim>\<open>defaultMap.Scan(oid, pgtype.TextFormatCode, v, &pgArray)\<close> is pgx's decoder of the
  textual array literal for the type with the given oid; it is a parameter \<open>scan\<close> here.
\<close>

type_synonym 'a pgtype_Scan = "32 word \<Rightarrow> 8 word list option \<Rightarrow> error + 'a pgtype_Array"

function ArrayScan ::
  "'a pgtype_Scan \<Rightarrow> 32 word \<Rightarrow> src \<Rightarrow> 'a list option \<Rightarrow> error option \<times> 'a list option"
where
  "ArrayScan scan oid SrcNil dest = (None, None)"
| "ArrayScan scan oid (SrcBytes v) dest =
     (case scan oid v of
        Inl err \<Rightarrow> (Some err, dest)
      | Inr pgArray \<Rightarrow> (None, Elements pgArray))"
| "ArrayScan scan oid (SrcString v) dest =
     ArrayScan scan oid (SrcBytes (Some (bytes_of_string v))) dest"
| "ArrayScan scan oid (SrcOther T) dest = (Some (UnsupportedType T), dest)"
  by pat_completeness auto
termination
  by (relation "measure (\<lambda>(scan, oid, s, dest). case s of SrcString v \<Rightarrow> 1 | _ \<Rightarrow> 0)") auto

text \<open>
  \<^verbatim>\<open>Array[T].Scan\<close>. \<open>typ\<close> is what \<^verbatim>\<open>defaultMap.TypeForValue(pgtype.Array[T]{})\<close> finds
  for the element type (the oid of the type, or nothing), \<open>T\<close> the name of the type of
  the receiver.
\<close>

definition Array_Scan ::
  "'a pgtype_Scan \<Rightarrow> 32 word option \<Rightarrow> string \<Rightarrow> 'a list option \<Rightarrow> src
     \<Rightarrow> error option \<times> 'a list option"
where
  "Array_Scan scan typ T a src' =
     (case typ of
        None \<Rightarrow> (Some (CannotType T), a)
      | Some oid \<Rightarrow>
          (case ArrayScan scan oid src' None of
             (Some err, aa) \<Rightarrow> (Some err, a)
           | (None, aa) \<Rightarrow> (None, aa)))"

section \<open>The clock\<close>

text \<open>
  Reading a clock is an effect on the world \<open>'w\<close>: two readings of the system clock
  differ.
\<close>

record 'w clock_Clock =
  Now :: "'w \<Rightarrow> Time \<times> 'w"
  Backdate :: "'w \<Rightarrow> Time \<times> 'w"

section \<open>The backend: sqlx handles\<close>

text \<open>
  The database is not part of the package. A \<^verbatim>\<open>*sqlx.DB\<close> and a \<^verbatim>\<open>*sqlx.Tx\<close> are records
  of their methods, which act on the world \<open>'w\<close> (the database, its connections, and
  whatever else the program can observe). \<open>'m\<close> is the type of the models bound and
  scanned. \<^verbatim>\<open>QueryRow(...)\<close> followed by \<^verbatim>\<open>row.Scan(&id)\<close> is one method, which returns the
  scanned string or the error. The context argument is not modelled: a cancellation shows
  as an error of the backend.
\<close>

record ('m, 'w) sqlx_Tx =
  tx_BindNamed :: "string \<Rightarrow> 'm \<Rightarrow> error + string \<times> sqlarg list"
  tx_Rebind :: "string \<Rightarrow> string"
  tx_Exec :: "string \<Rightarrow> sqlarg list \<Rightarrow> 'w \<Rightarrow> (error + sql_Result) \<times> 'w"
  tx_QueryRow_Scan :: "string \<Rightarrow> sqlarg list \<Rightarrow> 'w \<Rightarrow> (error + string) \<times> 'w"
  tx_Get :: "'m \<Rightarrow> string \<Rightarrow> sqlarg list \<Rightarrow> 'w \<Rightarrow> (error option \<times> 'm) \<times> 'w"
  tx_Commit :: "'w \<Rightarrow> error option \<times> 'w"
  tx_Rollback :: "'w \<Rightarrow> error option \<times> 'w"

record ('m, 'w) sqlx_DB =
  db_BindNamed :: "string \<Rightarrow> 'm \<Rightarrow> error + string \<times> sqlarg list"
  db_Rebind :: "string \<Rightarrow> string"
  db_ExecContext :: "string \<Rightarrow> sqlarg list \<Rightarrow> 'w \<Rightarrow> (error + sql_Result) \<times> 'w"
  db_QueryRowContext_Scan :: "string \<Rightarrow> sqlarg list \<Rightarrow> 'w \<Rightarrow> (error + string) \<times> 'w"
  db_GetContext :: "'m \<Rightarrow> string \<Rightarrow> sqlarg list \<Rightarrow> 'w \<Rightarrow> (error option \<times> 'm) \<times> 'w"
  db_BeginTxx :: "'w \<Rightarrow> (error + ('m, 'w) sqlx_Tx) \<times> 'w"

section \<open>sequel.go: DB\<close>

record ('m, 'w) DB =
  d_db :: "('m, 'w) sqlx_DB"
  d_clock :: "'w clock_Clock"
  d_doRebindModel :: bool
  d_driverName :: string

record 'w options =
  o_Clock :: "'w clock_Clock"
  o_DriverName :: string
  o_RebindModel :: bool
  o_MaxOpenConnections :: int




definition WithClock :: "'w clock_Clock \<Rightarrow> 'w options \<Rightarrow> 'w options" where
  "WithClock c o' = o'\<lparr>o_Clock := c\<rparr>"

definition WithDriver :: "string \<Rightarrow> 'w options \<Rightarrow> 'w options" where
  "WithDriver driverName o' = o'\<lparr>o_DriverName := driverName\<rparr>"


definition WithMaxOpenConnections :: "int \<Rightarrow> 'w options \<Rightarrow> 'w options" where
  "WithMaxOpenConnections n o' = o'\<lparr>o_MaxOpenConnections := n\<rparr>"


definition DB_Rebind :: "('m, 'w) DB \<Rightarrow> string \<Rightarrow> string" where
  "DB_Rebind d query = db_Rebind (d_db d) query"

definition DB_rebindModel :: "('m, 'w) DB \<Rightarrow> string \<Rightarrow> string" where
  "DB_rebindModel d query = (if d_doRebindModel d then DB_Rebind d query else query)"


definition DB_insertWithExec ::
  "('m, 'w) DB \<Rightarrow> string \<Rightarrow> sqlarg list \<Rightarrow> 'w \<Rightarrow> error option \<times> 'w"
where
  "DB_insertWithExec d query args w =
     (case db_ExecContext (d_db d) query args w of
        (Inl err, w1) \<Rightarrow> (Some err, w1)
      | (Inr r, w1) \<Rightarrow> (RowsAffected r 1, w1))"

definition DB_Insert ::
  "('a Model_scheme, 'w) DB \<Rightarrow> 'a Model_scheme \<Rightarrow> 'w \<Rightarrow> error option \<times> 'a Model_scheme \<times> 'w"
where
  "DB_Insert d arg w =
     (case Now (d_clock d) w of (t0, w1) \<Rightarrow>
        let arg1 = SetCreatedAt arg t0;
            arg2 = SetUpdatedAt arg1 t0
        in case db_BindNamed (d_db d) (InsertQ arg2) arg2 of
             Inl err \<Rightarrow> (Some err, arg2, w1)
           | Inr (query, qargs) \<Rightarrow>
               if WithExecInsert arg2 then
                 (case DB_insertWithExec d query qargs w1 of (r, w2) \<Rightarrow> (r, arg2, w2))
               else
                 (case db_QueryRowContext_Scan (d_db d) query qargs w1 of
                    (Inl err, w2) \<Rightarrow> (Some err, arg2, w2)
                  | (Inr id', w2) \<Rightarrow> (None, SetID arg2 id', w2)))"

text \<open>
  \<^verbatim>\<open>InsertBatch\<close> takes a slice of pointers to models and mutates the models in place; two
  elements of the slice may be the same pointer. The models live in a store \<open>h\<close> from
  pointers to models, and the slice is a list of pointers. \<open>InsertBatch_body\<close> is one
  round of the loop, \<open>InsertBatch_loop\<close> the loop, which stops at the first error.
\<close>

type_synonym ptr = nat

definition InsertBatch_body ::
  "('a Model_scheme, 'w) sqlx_Tx \<Rightarrow> Time \<Rightarrow> ptr \<Rightarrow> (ptr \<Rightarrow> 'a Model_scheme) \<Rightarrow> 'w
     \<Rightarrow> error option \<times> (ptr \<Rightarrow> 'a Model_scheme) \<times> 'w"
where
  "InsertBatch_body tx t0 a h w =
     (let h1 = h(a := SetCreatedAt (h a) t0);
          h2 = h1(a := SetUpdatedAt (h1 a) t0)
      in case tx_BindNamed tx (InsertQ (h2 a)) (h2 a) of
           Inl err \<Rightarrow> (Some err, h2, w)
         | Inr (query, qargs) \<Rightarrow>
             if WithExecInsert (h2 a) then
               (case tx_Exec tx query qargs w of
                  (Inl err, w1) \<Rightarrow> (Some err, h2, w1)
                | (Inr r, w1) \<Rightarrow>
                    (case RowsAffected r 1 of
                       Some err \<Rightarrow> (Some err, h2, w1)
                     | None \<Rightarrow> (None, h2, w1)))
             else
               (case tx_QueryRow_Scan tx query qargs w of
                  (Inl err, w1) \<Rightarrow> (Some err, h2, w1)
                | (Inr id', w1) \<Rightarrow> (None, h2(a := SetID (h2 a) id'), w1)))"

fun InsertBatch_loop ::
  "('a Model_scheme, 'w) sqlx_Tx \<Rightarrow> Time \<Rightarrow> ptr list \<Rightarrow> (ptr \<Rightarrow> 'a Model_scheme) \<Rightarrow> 'w
     \<Rightarrow> error option \<times> (ptr \<Rightarrow> 'a Model_scheme) \<times> 'w"
where
  "InsertBatch_loop tx t0 [] h w = (None, h, w)"
| "InsertBatch_loop tx t0 (a # args) h w =
     (case InsertBatch_body tx t0 a h w of
        (Some err, h', w') \<Rightarrow> (Some err, h', w')
      | (None, h', w') \<Rightarrow> InsertBatch_loop tx t0 args h' w')"

text \<open>
  The deferred \<^verbatim>\<open>tx.Rollback()\<close> runs on every return after the transaction has begun,
  also after a commit; its error is dropped.
\<close>

definition DB_InsertBatch ::
  "('a Model_scheme, 'w) DB \<Rightarrow> ptr list \<Rightarrow> (ptr \<Rightarrow> 'a Model_scheme) \<Rightarrow> 'w
     \<Rightarrow> error option \<times> (ptr \<Rightarrow> 'a Model_scheme) \<times> 'w"
where
  "DB_InsertBatch d args h w =
     (case Now (d_clock d) w of (t0, w1) \<Rightarrow>
        (case db_BeginTxx (d_db d) w1 of
           (Inl err, w2) \<Rightarrow> (Some err, h, w2)
         | (Inr tx, w2) \<Rightarrow>
             (case InsertBatch_loop tx t0 args h w2 of
                (Some err, h', w3) \<Rightarrow> (Some err, h', snd (tx_Rollback tx w3))
              | (None, h', w3) \<Rightarrow>
                  (case tx_Commit tx w3 of
                     (r, w4) \<Rightarrow> (r, h', snd (tx_Rollback tx w4))))))"


definition DB_Delete ::
  "('a Model_scheme, 'w) DB \<Rightarrow> 'a Model_scheme \<Rightarrow> 'w \<Rightarrow> error option \<times> 'a Model_scheme \<times> 'w"
where
  "DB_Delete d arg w =
     (case Now (d_clock d) w of (t0, w1) \<Rightarrow>
        (case db_ExecContext (d_db d) (DB_rebindModel d (DeleteQ arg))
                [ArgTime t0, ArgString (GetID arg)] w1 of
           (Inl err, w2) \<Rightarrow> (Some err, arg, w2)
         | (Inr r, w2) \<Rightarrow>
             (case RowsAffected r 1 of
                Some err \<Rightarrow> (Some err, arg, w2)
              | None \<Rightarrow> (None, SetDeletedAt arg t0, w2))))"


section \<open>sequel.go: Tx\<close>

text \<open>
  A post-commit callback is a \<^verbatim>\<open>func()\<close>: a change of the world. (A callback that
  registers callbacks on the transaction it belongs to is not modelled.)
\<close>

record ('m, 'w) Tx =
  t_tx :: "('m, 'w) sqlx_Tx"
  t_clock :: "'w clock_Clock"
  t_doRebindModel :: bool
  t_oncommit :: "('w \<Rightarrow> 'w) list"

definition DB_Begin :: "('m, 'w) DB \<Rightarrow> 'w \<Rightarrow> (error + ('m, 'w) Tx) \<times> 'w" where
  "DB_Begin d w =
     (case db_BeginTxx (d_db d) w of
        (Inl err, w1) \<Rightarrow> (Inl err, w1)
      | (Inr tx, w1) \<Rightarrow>
          (Inr \<lparr>t_tx = tx, t_clock = d_clock d, t_doRebindModel = d_doRebindModel d,
                t_oncommit = []\<rparr>, w1))"

definition Tx_Rebind :: "('m, 'w) Tx \<Rightarrow> string \<Rightarrow> string" where
  "Tx_Rebind t query = tx_Rebind (t_tx t) query"

definition Tx_rebindModel :: "('m, 'w) Tx \<Rightarrow> string \<Rightarrow> string" where
  "Tx_rebindModel t query = (if t_doRebindModel t then Tx_Rebind t query else query)"

fun run_oncommit :: "('w \<Rightarrow> 'w) list \<Rightarrow> 'w \<Rightarrow> 'w" where
  "run_oncommit [] w = w"
| "run_oncommit (fn # fns) w = run_oncommit fns (fn w)"

definition Tx_Commit :: "('m, 'w) Tx \<Rightarrow> 'w \<Rightarrow> error option \<times> 'w" where
  "Tx_Commit t w =
     (case tx_Commit (t_tx t) w of
        (Some err, w1) \<Rightarrow> (Some err, w1)
      | (None, w1) \<Rightarrow> (None, run_oncommit (t_oncommit t) w1))"

definition Tx_PostCommit :: "('m, 'w) Tx \<Rightarrow> ('w \<Rightarrow> 'w) \<Rightarrow> ('m, 'w) Tx" where
  "Tx_PostCommit t fn = t\<lparr>t_oncommit := t_oncommit t @ [fn]\<rparr>"

definition Tx_Rollback :: "('m, 'w) Tx \<Rightarrow> 'w \<Rightarrow> error option \<times> 'w" where
  "Tx_Rollback t w = tx_Rollback (t_tx t) w"





definition Tx_Delete ::
  "('a Model_scheme, 'w) Tx \<Rightarrow> 'a Model_scheme \<Rightarrow> 'w \<Rightarrow> error option \<times> 'a Model_scheme \<times> 'w"
where
  "Tx_Delete t arg w =
     (case Now (t_clock t) w of (t0, w1) \<Rightarrow>
        (case tx_Exec (t_tx t) (Tx_rebindModel t (DeleteQ arg))
                [ArgTime t0, ArgString (GetID arg)] w1 of
           (Inl err, w2) \<Rightarrow> (Some err, arg, w2)
         | (Inr r, w2) \<Rightarrow>
             (case RowsAffected r 1 of
                Some err \<Rightarrow> (Some err, arg, w2)
              | None \<Rightarrow> (None, SetDeletedAt arg t0, w2))))"


section \<open>Observing the calls made to the clock and to the backend\<close>

text \<open>
  To state which calls an operation makes, in which order and with which arguments, any
  clock and any backend are wrapped so that each call appends an event, with its
  arguments and its result, to a log kept beside the world. The wrapped handles behave as
  the handles they wrap.
\<close>

datatype event =
    EvNow Time
  | EvBackdate Time
  | EvBeginTxx "error option"
  | EvExec string "sqlarg list" "error + sql_Result"
  | EvQueryRow string "sqlarg list" "error + string"
  | EvGet string "sqlarg list" "error option"
  | EvTxExec string "sqlarg list" "error + sql_Result"
  | EvTxQueryRow string "sqlarg list" "error + string"
  | EvTxGet string "sqlarg list" "error option"
  | EvCommit "error option"
  | EvRollback "error option"
  | EvCallback nat

definition traced :: "('r \<Rightarrow> event) \<Rightarrow> ('w \<Rightarrow> 'r \<times> 'w) \<Rightarrow> 'w \<times> event list \<Rightarrow> 'r \<times> 'w \<times> event list" where
  "traced ev f = (\<lambda>(w, l). case f w of (r, w') \<Rightarrow> (r, w', l @ [ev r]))"

definition traced_Clock :: "'w clock_Clock \<Rightarrow> ('w \<times> event list) clock_Clock" where
  "traced_Clock c = \<lparr>Now = traced EvNow (Now c), Backdate = traced EvBackdate (Backdate c)\<rparr>"

definition traced_Tx :: "('m, 'w) sqlx_Tx \<Rightarrow> ('m, 'w \<times> event list) sqlx_Tx" where
  "traced_Tx tx =
     \<lparr>tx_BindNamed = tx_BindNamed tx,
      tx_Rebind = tx_Rebind tx,
      tx_Exec = (\<lambda>q a. traced (EvTxExec q a) (tx_Exec tx q a)),
      tx_QueryRow_Scan = (\<lambda>q a. traced (EvTxQueryRow q a) (tx_QueryRow_Scan tx q a)),
      tx_Get = (\<lambda>dest q a. traced (\<lambda>r. EvTxGet q a (fst r)) (tx_Get tx dest q a)),
      tx_Commit = traced EvCommit (tx_Commit tx),
      tx_Rollback = traced EvRollback (tx_Rollback tx)\<rparr>"

definition traced_BeginTxx ::
  "('w \<Rightarrow> (error + ('m, 'w) sqlx_Tx) \<times> 'w) \<Rightarrow> 'w \<times> event list
     \<Rightarrow> (error + ('m, 'w \<times> event list) sqlx_Tx) \<times> 'w \<times> event list"
where
  "traced_BeginTxx begin' =
     (\<lambda>(w, l). case begin' w of
        (Inl err, w') \<Rightarrow> (Inl err, w', l @ [EvBeginTxx (Some err)])
      | (Inr tx, w') \<Rightarrow> (Inr (traced_Tx tx), w', l @ [EvBeginTxx None]))"

definition traced_sqlx_DB :: "('m, 'w) sqlx_DB \<Rightarrow> ('m, 'w \<times> event list) sqlx_DB" where
  "traced_sqlx_DB dbx =
     \<lparr>db_BindNamed = db_BindNamed dbx,
      db_Rebind = db_Rebind dbx,
      db_ExecContext = (\<lambda>q a. traced (EvExec q a) (db_ExecContext dbx q a)),
      db_QueryRowContext_Scan =
        (\<lambda>q a. traced (EvQueryRow q a) (db_QueryRowContext_Scan dbx q a)),
      db_GetContext = (\<lambda>dest q a. traced (\<lambda>r. EvGet q a (fst r)) (db_GetContext dbx dest q a)),
      db_BeginTxx = traced_BeginTxx (db_BeginTxx dbx)\<rparr>"

definition traced_DB :: "('m, 'w) DB \<Rightarrow> ('m, 'w \<times> event list) DB" where
  "traced_DB d =
     \<lparr>d_db = traced_sqlx_DB (d_db d), d_clock = traced_Clock (d_clock d),
      d_doRebindModel = d_doRebindModel d, d_driverName = d_driverName d\<rparr>"

text \<open>A callback that is known by a number and logs its call.\<close>

definition traced_callback :: "(nat \<Rightarrow> 'w \<Rightarrow> 'w) \<Rightarrow> nat \<Rightarrow> 'w \<times> event list \<Rightarrow> 'w \<times> event list" where
  "traced_callback f i = (\<lambda>(w, l). (f i w, l @ [EvCallback i]))"

definition traced_Tx_of :: "('m, 'w) Tx \<Rightarrow> (nat \<Rightarrow> 'w \<Rightarrow> 'w) \<Rightarrow> nat list \<Rightarrow> ('m, 'w \<times> event list) Tx" where
  "traced_Tx_of t f ids =
     \<lparr>t_tx = traced_Tx (t_tx t), t_clock = traced_Clock (t_clock t),
      t_doRebindModel = t_doRebindModel t, t_oncommit = map (traced_callback f) ids\<rparr>"

definition is_commit :: "event \<Rightarrow> bool" where
  "is_commit ev = (case ev of EvCommit r \<Rightarrow> True | _ \<Rightarrow> False)"

definition is_clock_read :: "event \<Rightarrow> bool" where
  "is_clock_read ev = (case ev of EvNow t \<Rightarrow> True | EvBackdate t \<Rightarrow> True | _ \<Rightarrow> False)"

definition is_tx_insert :: "event \<Rightarrow> bool" where
  "is_tx_insert ev =
     (case ev of EvTxExec q a r \<Rightarrow> True | EvTxQueryRow q a r \<Rightarrow> True | _ \<Rightarrow> False)"

text \<open>
  What it is for the insert of a model \<open>m\<close> (with its timestamps set) to fail with
  \<open>err\<close> in the world \<open>w\<close>, leaving the world \<open>w'\<close>, told by the answers of the
  backend alone. \<open>bind\<close>, \<open>exec\<close> and \<open>scan\<close> are the handle's \<open>BindNamed\<close>, its
  \<open>Exec\<close> and its \<open>QueryRow\<close> with the scan of the id. Either binding the insert
  template fails with \<open>err\<close> (a bind error; no statement is sent). Or, for a model with
  exec insert, the statement fails with \<open>err\<close> (an execution error), or its result
  cannot tell its count and fails with \<open>err\<close>, or the count is zero and \<open>err\<close> is
  not-found, or the count is neither one nor zero and \<open>err\<close> is the count mismatch (a
  row-count error). Or, for any other model, the query or the scan of the returned id
  fails with \<open>err\<close> (a scan error).
\<close>

definition insert_fails ::
  "(string \<Rightarrow> 'a Model_scheme \<Rightarrow> error + string \<times> sqlarg list)
     \<Rightarrow> (string \<Rightarrow> sqlarg list \<Rightarrow> 'w \<Rightarrow> (error + sql_Result) \<times> 'w)
     \<Rightarrow> (string \<Rightarrow> sqlarg list \<Rightarrow> 'w \<Rightarrow> (error + string) \<times> 'w)
     \<Rightarrow> 'a Model_scheme \<Rightarrow> 'w \<Rightarrow> error \<Rightarrow> 'w \<Rightarrow> bool"
where
  "insert_fails bind exec scan m w err w' =
     (case bind (InsertQ m) m of
        Inl e \<Rightarrow> e = err \<and> w' = w
      | Inr (q, qargs) \<Rightarrow>
          if WithExecInsert m then
            (case exec q qargs w of
               (Inl e, w1) \<Rightarrow> e = err \<and> w' = w1
             | (Inr (Inl e), w1) \<Rightarrow> e = err \<and> w' = w1
             | (Inr (Inr got), w1) \<Rightarrow>
                 got \<noteq> 1 \<and> w' = w1 \<and>
                 err = (if got = 0 then ErrNoRows else UnexpectedRows got 1))
          else
            (case scan q qargs w of
               (Inl e, w1) \<Rightarrow> e = err \<and> w' = w1
             | (Inr id', w1) \<Rightarrow> False))"

section \<open>A backend in memory\<close>

text \<open>
  A small backend to run the operations on. Its world counts the readings of the clock,
  the rows written in the open transaction and the rows that are durable. Binding fails
  on an empty template; a statement fails when its text is \<open>''fail''\<close>; an insert that
  returns an id returns \<open>''id''\<close>; the statement \<open>''none''\<close> reports no affected row,
  \<open>''many''\<close> reports two, any other statement reports one. A
  commit makes the pending rows durable, a rollback drops them. The clock advances by one
  at each reading.
\<close>

record mem_world =
  ticks :: nat
  pending :: nat
  rows :: nat

definition mem_w :: "nat \<Rightarrow> nat \<Rightarrow> nat \<Rightarrow> mem_world" where
  "mem_w t p r = \<lparr>ticks = t, pending = p, rows = r\<rparr>"

definition mem_BindNamed :: "string \<Rightarrow> 'a Model_scheme \<Rightarrow> error + string \<times> sqlarg list" where
  "mem_BindNamed q m =
     (if q = [] then Inl (BackendError ''bind'') else Inr (q, [ArgString (ID m)]))"

definition mem_Exec :: "string \<Rightarrow> sqlarg list \<Rightarrow> mem_world \<Rightarrow> (error + sql_Result) \<times> mem_world" where
  "mem_Exec q a w =
     (if q = ''fail'' then (Inl (BackendError ''exec''), w)
      else if q = ''none'' then (Inr (Inr 0), w)
      else if q = ''many'' then (Inr (Inr 2), w\<lparr>rows := Suc (Suc (rows w))\<rparr>)
      else (Inr (Inr 1), w\<lparr>rows := Suc (rows w)\<rparr>))"

definition mem_QueryRow_Scan ::
  "string \<Rightarrow> sqlarg list \<Rightarrow> mem_world \<Rightarrow> (error + string) \<times> mem_world"
where
  "mem_QueryRow_Scan q a w =
     (if q = ''fail'' then (Inl (BackendError ''unique violation''), w)
      else (Inr ''id'', w\<lparr>rows := Suc (rows w)\<rparr>))"

definition mem_tx_Exec ::
  "string \<Rightarrow> sqlarg list \<Rightarrow> mem_world \<Rightarrow> (error + sql_Result) \<times> mem_world"
where
  "mem_tx_Exec q a w =
     (if q = ''fail'' then (Inl (BackendError ''exec''), w)
      else if q = ''none'' then (Inr (Inr 0), w)
      else if q = ''many'' then (Inr (Inr 2), w\<lparr>pending := Suc (Suc (pending w))\<rparr>)
      else (Inr (Inr 1), w\<lparr>pending := Suc (pending w)\<rparr>))"

definition mem_tx_QueryRow_Scan ::
  "string \<Rightarrow> sqlarg list \<Rightarrow> mem_world \<Rightarrow> (error + string) \<times> mem_world"
where
  "mem_tx_QueryRow_Scan q a w =
     (if q = ''fail'' then (Inl (BackendError ''unique violation''), w)
      else (Inr ''id'', w\<lparr>pending := Suc (pending w)\<rparr>))"

definition mem_Rebind :: "string \<Rightarrow> string" where
  "mem_Rebind q = ''$'' @ q"

definition mem_Tx :: "('a Model_scheme, mem_world) sqlx_Tx" where
  "mem_Tx =
     \<lparr>tx_BindNamed = mem_BindNamed, tx_Rebind = mem_Rebind, tx_Exec = mem_tx_Exec,
      tx_QueryRow_Scan = mem_tx_QueryRow_Scan,
      tx_Get = (\<lambda>dest q a w. ((None, dest), w)),
      tx_Commit = (\<lambda>w. (None, w\<lparr>pending := 0, rows := rows w + pending w\<rparr>)),
      tx_Rollback = (\<lambda>w. (None, w\<lparr>pending := 0\<rparr>))\<rparr>"

definition mem_sqlx_DB :: "('a Model_scheme, mem_world) sqlx_DB" where
  "mem_sqlx_DB =
     \<lparr>db_BindNamed = mem_BindNamed, db_Rebind = mem_Rebind, db_ExecContext = mem_Exec,
      db_QueryRowContext_Scan = mem_QueryRow_Scan,
      db_GetContext = (\<lambda>dest q a w. ((None, dest), w)),
      db_BeginTxx = (\<lambda>w. (Inr mem_Tx, w))\<rparr>"

definition mem_Clock :: "mem_world clock_Clock" where
  "mem_Clock =
     \<lparr>Now = (\<lambda>w. (int (ticks w) + 7, w\<lparr>ticks := Suc (ticks w)\<rparr>)),
      Backdate = (\<lambda>w. (int (ticks w) + 6, w\<lparr>ticks := Suc (ticks w)\<rparr>))\<rparr>"

definition mem_DB :: "bool \<Rightarrow> ('a Model_scheme, mem_world) DB" where
  "mem_DB rebind =
     \<lparr>d_db = mem_sqlx_DB, d_clock = mem_Clock, d_doRebindModel = rebind,
      d_driverName = ''mem''\<rparr>"

definition mem_T :: "bool \<Rightarrow> ('a Model_scheme, mem_world) Tx" where
  "mem_T rebind =
     \<lparr>t_tx = mem_Tx, t_clock = mem_Clock, t_doRebindModel = rebind, t_oncommit = []\<rparr>"

definition person :: "string \<Rightarrow> string \<Rightarrow> Model" where
  "person id' insertQ =
     \<lparr>ID = id', CreatedAt = 0, UpdatedAt = 0, DeletedAt = \<lparr>Value = 0, Valid = False\<rparr>,
      SelectQ = ''select'', InsertQ = insertQ, UpdateQ = ''update'', DeleteQ = ''delete'',
      WithExecInsert = False\<rparr>"

text \<open>A store of three models; the insert of the model at pointer 1 fails.\<close>

definition mem_heap :: "ptr \<Rightarrow> Model" where
  "mem_heap p = person ''old'' (if p = 1 then ''fail'' else ''insert'')"

text \<open>
  A model whose type has exec insert, and a store of three models in which the model at
  pointer 1 has the insert template \<open>q\<close> and, when \<open>ex\<close>, exec insert.
\<close>

definition person_extra :: "string \<Rightarrow> string \<Rightarrow> Model" where
  "person_extra id' insertQ = (person id' insertQ)\<lparr>WithExecInsert := True\<rparr>"

definition mem_batch :: "string \<Rightarrow> bool \<Rightarrow> ptr \<Rightarrow> Model" where
  "mem_batch q ex p =
     (if p = 1 then (if ex then person_extra ''old'' q else person ''old'' q)
      else person ''old'' ''insert'')"

definition stamped :: "Time \<Rightarrow> 'a Model_scheme \<Rightarrow> bool" where
  "stamped t0 m = (CreatedAt m = t0 \<and> UpdatedAt m = t0)"

section \<open>Theorems\<close>

subsection \<open>The row-count verifier\<close>

text \<open>
  C2 (as amended). The verifier returns success when the actual count equals the
  expected one (also when both are zero); it reports not-found when the actual count is
  zero and the expected one is not; for any other actual count it reports the
  count-mismatch error carrying the actual and the expected number; and the error of a
  result that cannot tell its count is passed on.
\<close>

theorem RowsAffected_classification:
  "(got = n \<longrightarrow> RowsAffected (Inr got) n = None) \<and>
   (got = 0 \<and> n \<noteq> 0 \<longrightarrow> RowsAffected (Inr got) n = Some ErrNoRows) \<and>
   (got \<noteq> n \<and> got \<noteq> 0 \<longrightarrow> RowsAffected (Inr got) n = Some (UnexpectedRows got n)) \<and>
   RowsAffected (Inl err) n = Some err"
  by (simp add: RowsAffected_def)

theorem RowsAffected_classification_witness:
  "RowsAffected (Inr 1) 1 = None \<and>
   RowsAffected (Inr 0) 1 = Some ErrNoRows \<and>
   RowsAffected (Inr 2) 1 = Some (UnexpectedRows 2 1)"
  using RowsAffected_classification [of 1 1]
        RowsAffected_classification [of 0 1]
        RowsAffected_classification [of 2 1]
  by simp

text \<open>
  C2 (as stated) fails where the actual and the expected count are both zero: the
  equality test comes first, so the verifier returns success, not not-found.
\<close>

theorem RowsAffected_zero_zero_counterexample:
  "RowsAffected (Inr 0) 0 = None \<and> RowsAffected (Inr 0) 0 \<noteq> Some ErrNoRows"
  by (simp add: RowsAffected_def)

subsection \<open>The base entity and the helpers\<close>

text \<open>
  C9. \<open>SetDeletedAt\<close> stores \<open>t\<close> as the deleted timestamp and marks it valid exactly
  when \<open>t\<close> is not the zero time: the zero time clears the soft-delete marker, any other
  time sets it. No other field of the entity changes.
\<close>

theorem SetDeletedAt_marker:
  "Valid (DeletedAt (SetDeletedAt m t)) = (\<not> IsZero t) \<and>
   Value (DeletedAt (SetDeletedAt m t)) = t \<and>
   DeletedAt (SetDeletedAt m 0) = \<lparr>Value = 0, Valid = False\<rparr> \<and>
   IsZero t = (t = 0) \<and>
   ID (SetDeletedAt m t) = ID m \<and>
   CreatedAt (SetDeletedAt m t) = CreatedAt m \<and>
   UpdatedAt (SetDeletedAt m t) = UpdatedAt m"
  by (simp add: SetDeletedAt_def IsZero_def)

lemma float64_zero_not_NaN: "float64_isZero f \<Longrightarrow> \<not> float64_isNaN f"
proof
  assume z: "float64_isZero f" and n: "float64_isNaN f"
  have "f AND 0x7FF0000000000000 = (f AND 0x7FFFFFFFFFFFFFFF) AND 0x7FF0000000000000"
    by (simp add: and.assoc)
  also have "\<dots> = 0"
    using z by (simp add: float64_isZero_def)
  finally show False
    using n by (simp add: float64_isNaN_def)
qed

lemma float64_eq_zero: "float64_eq f 0 = float64_isZero f"
proof (cases "float64_isZero f")
  case True
  moreover have "float64_isZero 0"
    by (simp add: float64_isZero_def)
  ultimately show ?thesis
    using float64_zero_not_NaN [of f] float64_zero_not_NaN [of 0]
    by (simp add: float64_eq_def)
next
  case False
  then show ?thesis
    by (auto simp add: float64_eq_def float64_isZero_def)
qed

text \<open>
  C10. Every \<open>Null*\<close> helper returns a wrapper that carries its argument and whose
  \<open>Valid\<close> flag is true exactly when the argument differs from the zero value of its
  type (for a float, by the comparison of floats, under which both zeros are zero; for a
  time, when it is not the zero instant). So no helper returns a valid wrapper of a zero
  value: a non-null \<open>false\<close>, \<open>0\<close>, empty string or zero time cannot be produced.
\<close>

theorem Null_helpers_valid_iff_nonzero:
  "NullBool b = \<lparr>Value = b, Valid = (b \<noteq> False)\<rparr> \<and>
   NullByte y = \<lparr>Value = y, Valid = (y \<noteq> 0)\<rparr> \<and>
   NullFloat64 f = \<lparr>Value = f, Valid = (\<not> float64_eq f 0)\<rparr> \<and>
   Valid (NullFloat64 f) = (\<not> float64_isZero f) \<and>
   NullInt16 i16 = \<lparr>Value = i16, Valid = (i16 \<noteq> 0)\<rparr> \<and>
   NullInt32 i32 = \<lparr>Value = i32, Valid = (i32 \<noteq> 0)\<rparr> \<and>
   NullInt64 i64 = \<lparr>Value = i64, Valid = (i64 \<noteq> 0)\<rparr> \<and>
   NullString s = \<lparr>Value = s, Valid = (s \<noteq> [])\<rparr> \<and>
   NullTime t = \<lparr>Value = t, Valid = (t \<noteq> 0)\<rparr> \<and>
   (\<nexists>v. NullBool v = \<lparr>Value = False, Valid = True\<rparr>) \<and>
   (\<nexists>v. NullByte v = \<lparr>Value = 0, Valid = True\<rparr>) \<and>
   (\<nexists>v. NullFloat64 v = \<lparr>Value = 0, Valid = True\<rparr>) \<and>
   (\<nexists>v. NullInt16 v = \<lparr>Value = 0, Valid = True\<rparr>) \<and>
   (\<nexists>v. NullInt32 v = \<lparr>Value = 0, Valid = True\<rparr>) \<and>
   (\<nexists>v. NullInt64 v = \<lparr>Value = 0, Valid = True\<rparr>) \<and>
   (\<nexists>v. NullString v = \<lparr>Value = [], Valid = True\<rparr>) \<and>
   (\<nexists>v. NullTime v = \<lparr>Value = 0, Valid = True\<rparr>)"
  by (simp add: NullBool_def NullByte_def NullFloat64_def NullInt16_def NullInt32_def
      NullInt64_def NullString_def NullTime_def IsZero_def float64_eq_zero)
     (auto simp add: float64_isZero_def)

subsection \<open>The array codec\<close>

text \<open>
  C8. Whatever the element type and the oid: scanning an absent source (SQL NULL) leaves
  the destination nil, which is not the empty sequence; a byte sequence or a string (by
  its bytes) is decoded by the decoder of the given oid, whose elements become the
  destination and whose error is returned with the destination untouched; a source of
  any other dynamic type fails with the unsupported-type error and leaves the destination
  untouched. \<open>Array.Scan\<close> does the same once the type of the array has been found (and
  fails with its own error when it has not).
\<close>

theorem ArrayScan_sources:
  "ArrayScan scan oid SrcNil dest = (None, None) \<and>
   snd (ArrayScan scan oid SrcNil dest) \<noteq> Some [] \<and>
   ArrayScan scan oid (SrcBytes v) dest =
     (case scan oid v of
        Inl err \<Rightarrow> (Some err, dest)
      | Inr pgArray \<Rightarrow> (None, Elements pgArray)) \<and>
   ArrayScan scan oid (SrcString s) dest =
     (case scan oid (Some (bytes_of_string s)) of
        Inl err \<Rightarrow> (Some err, dest)
      | Inr pgArray \<Rightarrow> (None, Elements pgArray)) \<and>
   ArrayScan scan oid (SrcOther T) dest = (Some (UnsupportedType T), dest) \<and>
   Array_Scan scan (Some oid) T' a SrcNil = (None, None) \<and>
   Array_Scan scan (Some oid) T' a (SrcOther T) = (Some (UnsupportedType T), a) \<and>
   Array_Scan scan (Some oid) T' a (SrcBytes v) =
     (case scan oid v of
        Inl err \<Rightarrow> (Some err, a)
      | Inr pgArray \<Rightarrow> (None, Elements pgArray)) \<and>
   Array_Scan scan (Some oid) T' a (SrcString s) =
     (case scan oid (Some (bytes_of_string s)) of
        Inl err \<Rightarrow> (Some err, a)
      | Inr pgArray \<Rightarrow> (None, Elements pgArray)) \<and>
   Array_Scan scan None T' a src' = (Some (CannotType T'), a)"
  by (simp add: Array_Scan_def split: sum.splits)

subsection \<open>Commit, rollback and the post-commit callbacks\<close>

lemma run_oncommit_append: "run_oncommit (fs @ gs) w = run_oncommit gs (run_oncommit fs w)"
  by (induction fs arbitrary: w) simp_all

lemma oncommit_fold_PostCommit:
  "t_oncommit (fold (\<lambda>fn t. Tx_PostCommit t fn) fns t) = t_oncommit t @ fns"
  by (induction fns arbitrary: t) (simp_all add: Tx_PostCommit_def)

lemma tx_fold_PostCommit:
  "t_tx (fold (\<lambda>fn t. Tx_PostCommit t fn) fns t) = t_tx t"
  by (induction fns arbitrary: t) (simp_all add: Tx_PostCommit_def)

lemma run_traced_callbacks:
  "run_oncommit (map (traced_callback f) ids) (w, l) =
     (fold f ids w, l @ map EvCallback ids)"
  by (induction ids arbitrary: w l) (simp_all add: traced_callback_def)

text \<open>
  C3. Take a transaction \<open>t\<close> and register the callbacks \<open>fns\<close> on it, one
  \<open>PostCommit\<close> after the other. \<open>Commit\<close> commits first. When the commit fails, its error
  is returned and the world is the one the failed commit left: no callback has run. When
  it succeeds, the callbacks registered before and then \<open>fns\<close> run on the world the
  commit left, each on the world the one before it left, in the order of registration.
  \<open>Rollback\<close> is the rollback of the backend and nothing else; a transaction that has
  just begun has no callback. On a traced transaction whose callbacks log their calls,
  the log after a successful commit is the commit followed by the callbacks in the order
  of registration; after a failed commit or a rollback it holds that one event.
\<close>

theorem Commit_runs_callbacks:
  "Tx_Commit (fold (\<lambda>fn t. Tx_PostCommit t fn) fns t) w =
     (case tx_Commit (t_tx t) w of
        (Some err, w1) \<Rightarrow> (Some err, w1)
      | (None, w1) \<Rightarrow> (None, run_oncommit (t_oncommit t @ fns) w1)) \<and>
   run_oncommit [f1, f2, f3] w = f3 (f2 (f1 w)) \<and>
   Tx_Rollback (fold (\<lambda>fn t. Tx_PostCommit t fn) fns t) w = tx_Rollback (t_tx t) w \<and>
   Tx_Commit (fold (\<lambda>fn t. Tx_PostCommit t fn) (map (traced_callback g) ids)
                (traced_Tx_of t g [])) (w, l) =
     (case tx_Commit (t_tx t) w of
        (Some err, w1) \<Rightarrow> (Some err, w1, l @ [EvCommit (Some err)])
      | (None, w1) \<Rightarrow> (None, fold g ids w1, l @ EvCommit None # map EvCallback ids)) \<and>
   Tx_Rollback (fold (\<lambda>fn t. Tx_PostCommit t fn) (map (traced_callback g) ids)
                  (traced_Tx_of t g [])) (w, l) =
     (case tx_Rollback (t_tx t) w of (r, w1) \<Rightarrow> (r, w1, l @ [EvRollback r])) \<and>
   (case DB_Begin d w0 of
      (Inl err, w1) \<Rightarrow> True
    | (Inr t', w1) \<Rightarrow> t_oncommit t' = [])"
  by (simp add: Tx_Commit_def Tx_Rollback_def oncommit_fold_PostCommit tx_fold_PostCommit
      traced_Tx_of_def traced_Tx_def traced_def run_traced_callbacks DB_Begin_def
      split: prod.splits option.splits sum.splits)

subsection \<open>The traced handles\<close>

lemma traced_DB_simps:
  "d_db (traced_DB d) = traced_sqlx_DB (d_db d)"
  "d_clock (traced_DB d) = traced_Clock (d_clock d)"
  "d_doRebindModel (traced_DB d) = d_doRebindModel d"
  "d_driverName (traced_DB d) = d_driverName d"
  by (simp_all add: traced_DB_def)

lemma traced_rebindModel: "DB_rebindModel (traced_DB d) q = DB_rebindModel d q"
  by (simp add: DB_rebindModel_def DB_Rebind_def traced_DB_def traced_sqlx_DB_def)

lemma traced_Tx_rebindModel: "Tx_rebindModel (traced_Tx_of t f ids) q = Tx_rebindModel t q"
  by (simp add: Tx_rebindModel_def Tx_Rebind_def traced_Tx_of_def traced_Tx_def)

lemma traced_Now: "Now (traced_Clock c) (w, l) = (case Now c w of (t, w') \<Rightarrow> (t, w', l @ [EvNow t]))"
  by (simp add: traced_Clock_def traced_def)

lemma traced_ExecContext:
  "db_ExecContext (traced_sqlx_DB dbx) q a (w, l) =
     (case db_ExecContext dbx q a w of (r, w') \<Rightarrow> (r, w', l @ [EvExec q a r]))"
  by (simp add: traced_sqlx_DB_def traced_def)

lemma traced_tx_Exec:
  "tx_Exec (traced_Tx tx) q a (w, l) =
     (case tx_Exec tx q a w of (r, w') \<Rightarrow> (r, w', l @ [EvTxExec q a r]))"
  by (simp add: traced_Tx_def traced_def)

lemma traced_QueryRow:
  "db_QueryRowContext_Scan (traced_sqlx_DB dbx) q a (w, l) =
     (case db_QueryRowContext_Scan dbx q a w of (r, w') \<Rightarrow> (r, w', l @ [EvQueryRow q a r]))"
  by (simp add: traced_sqlx_DB_def traced_def)

lemma traced_db_BindNamed: "db_BindNamed (traced_sqlx_DB dbx) = db_BindNamed dbx"
  by (simp add: traced_sqlx_DB_def)

lemma traced_tx_QueryRow:
  "tx_QueryRow_Scan (traced_Tx tx) q a (w, l) =
     (case tx_QueryRow_Scan tx q a w of (r, w') \<Rightarrow> (r, w', l @ [EvTxQueryRow q a r]))"
  by (simp add: traced_Tx_def traced_def)

lemma traced_tx_BindNamed: "tx_BindNamed (traced_Tx tx) = tx_BindNamed tx"
  by (simp add: traced_Tx_def)


lemma traced_tx_Rollback:
  "tx_Rollback (traced_Tx tx) (w, l) =
     (case tx_Rollback tx w of (r, w') \<Rightarrow> (r, w', l @ [EvRollback r]))"
  by (simp add: traced_Tx_def traced_def)

lemma traced_db_BeginTxx:
  "db_BeginTxx (traced_sqlx_DB dbx) (w, l) =
     (case db_BeginTxx dbx w of
        (Inl err, w') \<Rightarrow> (Inl err, w', l @ [EvBeginTxx (Some err)])
      | (Inr tx, w') \<Rightarrow> (Inr (traced_Tx tx), w', l @ [EvBeginTxx None]))"
  by (simp add: traced_sqlx_DB_def traced_BeginTxx_def)

lemma RowsAffected_None: "(RowsAffected r n = None) = (r = Inr n)"
  by (auto simp add: RowsAffected_def split: sum.splits)

lemma RowsAffected_Some: "(RowsAffected r n = Some e) \<Longrightarrow> r \<noteq> Inr n"
  by (auto simp add: RowsAffected_def split: sum.splits)

lemma RowsAffected_same: "RowsAffected (Inr n) n = None"
  by (simp add: RowsAffected_def)

lemma exec_outcome_None:
  "((case res of Inl err \<Rightarrow> Some err | Inr rr \<Rightarrow> RowsAffected rr n) = None) = (res = Inr (Inr n))"
  by (cases res) (simp_all add: RowsAffected_None)

lemma DB_Delete_eq:
  assumes "Now (d_clock d) w = (t0, w1)"
    and "db_ExecContext (d_db d) (DB_rebindModel d (DeleteQ arg))
           [ArgTime t0, ArgString (GetID arg)] w1 = (res, w2)"
  shows "DB_Delete d arg w =
           (case res of Inl err \<Rightarrow> Some err | Inr rr \<Rightarrow> RowsAffected rr 1,
            if res = Inr (Inr 1) then SetDeletedAt arg t0 else arg, w2)"
    and "DB_Delete (traced_DB d) arg (w, l) =
           (case res of Inl err \<Rightarrow> Some err | Inr rr \<Rightarrow> RowsAffected rr 1,
            if res = Inr (Inr 1) then SetDeletedAt arg t0 else arg, w2,
            l @ [EvNow t0, EvExec (DB_rebindModel d (DeleteQ arg))
                   [ArgTime t0, ArgString (GetID arg)] res])"
  using assms
  by (auto simp add: DB_Delete_def traced_DB_simps traced_rebindModel traced_Now
      traced_ExecContext RowsAffected_None RowsAffected_same dest: RowsAffected_Some
      split: sum.splits option.splits)

lemma Tx_Delete_eq:
  assumes "Now (t_clock t) w = (t0, w1)"
    and "tx_Exec (t_tx t) (Tx_rebindModel t (DeleteQ arg))
           [ArgTime t0, ArgString (GetID arg)] w1 = (res, w2)"
  shows "Tx_Delete t arg w =
           (case res of Inl err \<Rightarrow> Some err | Inr rr \<Rightarrow> RowsAffected rr 1,
            if res = Inr (Inr 1) then SetDeletedAt arg t0 else arg, w2)"
    and "Tx_Delete (traced_Tx_of t f ids) arg (w, l) =
           (case res of Inl err \<Rightarrow> Some err | Inr rr \<Rightarrow> RowsAffected rr 1,
            if res = Inr (Inr 1) then SetDeletedAt arg t0 else arg, w2,
            l @ [EvNow t0, EvTxExec (Tx_rebindModel t (DeleteQ arg))
                   [ArgTime t0, ArgString (GetID arg)] res])"
  using assms
  by (auto simp add: Tx_Delete_def traced_Tx_of_def
      traced_Tx_rebindModel [unfolded traced_Tx_of_def] traced_Now
      traced_tx_Exec RowsAffected_None RowsAffected_same dest: RowsAffected_Some
      split: sum.splits option.splits)

subsection \<open>Soft delete\<close>

text \<open>
  C6. \<open>Delete\<close>, on the database and in a transaction, reads the clock once and runs the
  delete template with that instant \<open>t0\<close> and the id of the entity. It succeeds exactly
  when the statement reports one affected row. On success the entity returned has its
  deleted timestamp set to \<open>t0\<close>, the instant passed to the statement; on any failure
  (an error of the statement, no row, or another count) the entity is returned as it was.
  The traced run returns what the plain run returns.
\<close>

theorem Delete_soft:
  "(DB_Delete (traced_DB d) arg (w, l) = (r, arg', w', l') \<longrightarrow>
      DB_Delete d arg w = (r, arg', w') \<and>
      (\<exists>t0 res.
         l' = l @ [EvNow t0,
                   EvExec (DB_rebindModel d (DeleteQ arg)) [ArgTime t0, ArgString (GetID arg)] res] \<and>
         (r = None) = (res = Inr (Inr 1)) \<and>
         arg' = (if r = None then SetDeletedAt arg t0 else arg) \<and>
         (r = None \<longrightarrow> DeletedAt arg' = \<lparr>Value = t0, Valid = (\<not> IsZero t0)\<rparr>))) \<and>
   (Tx_Delete (traced_Tx_of t f ids) arg (w, l) = (r, arg', w', l') \<longrightarrow>
      Tx_Delete t arg w = (r, arg', w') \<and>
      (\<exists>t0 res.
         l' = l @ [EvNow t0,
                   EvTxExec (Tx_rebindModel t (DeleteQ arg)) [ArgTime t0, ArgString (GetID arg)] res] \<and>
         (r = None) = (res = Inr (Inr 1)) \<and>
         arg' = (if r = None then SetDeletedAt arg t0 else arg) \<and>
         (r = None \<longrightarrow> DeletedAt arg' = \<lparr>Value = t0, Valid = (\<not> IsZero t0)\<rparr>)))"
proof (intro conjI impI)
  obtain t0 w1 where now: "Now (d_clock d) w = (t0, w1)"
    by (cases "Now (d_clock d) w")
  obtain res w2 where ex: "db_ExecContext (d_db d) (DB_rebindModel d (DeleteQ arg))
           [ArgTime t0, ArgString (GetID arg)] w1 = (res, w2)"
    by (cases "db_ExecContext (d_db d) (DB_rebindModel d (DeleteQ arg))
           [ArgTime t0, ArgString (GetID arg)] w1")
  assume a: "DB_Delete (traced_DB d) arg (w, l) = (r, arg', w', l')"
  from a show "DB_Delete d arg w = (r, arg', w')"
    by (simp add: DB_Delete_eq [OF now ex])
  from a have "l' = l @ [EvNow t0,
                   EvExec (DB_rebindModel d (DeleteQ arg)) [ArgTime t0, ArgString (GetID arg)] res] \<and>
         (r = None) = (res = Inr (Inr 1)) \<and>
         arg' = (if r = None then SetDeletedAt arg t0 else arg) \<and>
         (r = None \<longrightarrow> DeletedAt arg' = \<lparr>Value = t0, Valid = (\<not> IsZero t0)\<rparr>)"
    by (auto simp add: DB_Delete_eq [OF now ex] exec_outcome_None RowsAffected_same SetDeletedAt_def)
  then show "\<exists>t0 res.
         l' = l @ [EvNow t0,
                   EvExec (DB_rebindModel d (DeleteQ arg)) [ArgTime t0, ArgString (GetID arg)] res] \<and>
         (r = None) = (res = Inr (Inr 1)) \<and>
         arg' = (if r = None then SetDeletedAt arg t0 else arg) \<and>
         (r = None \<longrightarrow> DeletedAt arg' = \<lparr>Value = t0, Valid = (\<not> IsZero t0)\<rparr>)"
    by blast
next
  obtain t0 w1 where now: "Now (t_clock t) w = (t0, w1)"
    by (cases "Now (t_clock t) w")
  obtain res w2 where ex: "tx_Exec (t_tx t) (Tx_rebindModel t (DeleteQ arg))
           [ArgTime t0, ArgString (GetID arg)] w1 = (res, w2)"
    by (cases "tx_Exec (t_tx t) (Tx_rebindModel t (DeleteQ arg))
           [ArgTime t0, ArgString (GetID arg)] w1")
  assume a: "Tx_Delete (traced_Tx_of t f ids) arg (w, l) = (r, arg', w', l')"
  from a show "Tx_Delete t arg w = (r, arg', w')"
    by (simp add: Tx_Delete_eq [OF now ex])
  from a have "l' = l @ [EvNow t0,
                   EvTxExec (Tx_rebindModel t (DeleteQ arg)) [ArgTime t0, ArgString (GetID arg)] res] \<and>
         (r = None) = (res = Inr (Inr 1)) \<and>
         arg' = (if r = None then SetDeletedAt arg t0 else arg) \<and>
         (r = None \<longrightarrow> DeletedAt arg' = \<lparr>Value = t0, Valid = (\<not> IsZero t0)\<rparr>)"
    by (auto simp add: Tx_Delete_eq [OF now ex] exec_outcome_None RowsAffected_same SetDeletedAt_def)
  then show "\<exists>t0 res.
         l' = l @ [EvNow t0,
                   EvTxExec (Tx_rebindModel t (DeleteQ arg)) [ArgTime t0, ArgString (GetID arg)] res] \<and>
         (r = None) = (res = Inr (Inr 1)) \<and>
         arg' = (if r = None then SetDeletedAt arg t0 else arg) \<and>
         (r = None \<longrightarrow> DeletedAt arg' = \<lparr>Value = t0, Valid = (\<not> IsZero t0)\<rparr>)"
    by blast
qed

lemmas mem_defs =
  mem_DB_def mem_T_def mem_sqlx_DB_def mem_Tx_def mem_Clock_def mem_BindNamed_def mem_Exec_def
  mem_QueryRow_Scan_def mem_tx_Exec_def mem_tx_QueryRow_Scan_def mem_Rebind_def mem_w_def
  person_def mem_heap_def person_extra_def mem_batch_def

lemmas traced_defs =
  traced_DB_def traced_sqlx_DB_def traced_Tx_def traced_Tx_of_def traced_Clock_def
  traced_BeginTxx_def traced_def

lemmas setter_defs = GetID_def SetID_def SetCreatedAt_def SetUpdatedAt_def SetDeletedAt_def IsZero_def

theorem Delete_soft_witness:
  "DB_Delete (mem_DB False) (person ''1'' ''insert'') (mem_w 0 0 0) =
     (None, SetDeletedAt (person ''1'' ''insert'') 7, mem_w 1 0 1) \<and>
   DeletedAt (SetDeletedAt (person ''1'' ''insert'') 7) = \<lparr>Value = 7, Valid = True\<rparr> \<and>
   Tx_Delete (mem_T False) (person ''1'' ''insert'') (mem_w 0 0 0) =
     (None, SetDeletedAt (person ''1'' ''insert'') 7, mem_w 1 1 0)"
proof -
  have db: "DB_Delete (traced_DB (mem_DB False)) (person ''1'' ''insert'') (mem_w 0 0 0, []) =
      (None, SetDeletedAt (person ''1'' ''insert'') 7, mem_w 1 0 1,
       [EvNow 7, EvExec ''delete'' [ArgTime 7, ArgString ''1''] (Inr (Inr 1))])"
    by (simp add: DB_Delete_def DB_rebindModel_def RowsAffected_def mem_defs traced_defs setter_defs)
  have tx: "Tx_Delete (traced_Tx_of (mem_T False) f ids) (person ''1'' ''insert'')
      (mem_w 0 0 0, []) =
      (None, SetDeletedAt (person ''1'' ''insert'') 7, mem_w 1 1 0,
       [EvNow 7, EvTxExec ''delete'' [ArgTime 7, ArgString ''1''] (Inr (Inr 1))])"
    by (simp add: Tx_Delete_def Tx_rebindModel_def RowsAffected_def mem_defs traced_defs setter_defs)
  show ?thesis
    using Delete_soft [THEN conjunct1, rule_format, OF db]
      Delete_soft [THEN conjunct2, rule_format, OF tx]
    by (simp add: setter_defs)
qed

subsection \<open>Rebinding the queries of the model\<close>






subsection \<open>Insert\<close>

lemma DB_Insert_traced_plain:
  "DB_Insert (traced_DB d) arg (w, l) = (r, arg', w', l') \<Longrightarrow> DB_Insert d arg w = (r, arg', w')"
  by (auto simp add: DB_Insert_def DB_insertWithExec_def Let_def traced_DB_simps traced_Now
      traced_ExecContext traced_QueryRow traced_db_BindNamed
      split: prod.splits sum.splits if_splits)

lemma DB_Insert_fails_iff:
  assumes "Now (d_clock d) w = (t0, w1)"
  shows "(DB_Insert d arg w = (Some err, arg', w')) =
         (arg' = SetUpdatedAt (SetCreatedAt arg t0) t0 \<and>
          insert_fails (db_BindNamed (d_db d)) (db_ExecContext (d_db d))
            (db_QueryRowContext_Scan (d_db d)) (SetUpdatedAt (SetCreatedAt arg t0) t0) w1 err w')"
  using assms
  by (auto simp add: DB_Insert_def DB_insertWithExec_def insert_fails_def Let_def
      RowsAffected_def
      split: sum.splits prod.splits if_splits)

lemma stamp_fields:
  "InsertQ (SetUpdatedAt (SetCreatedAt m t0) t0) = InsertQ m"
  "WithExecInsert (SetUpdatedAt (SetCreatedAt m t0) t0) = WithExecInsert m"
  "ID (SetUpdatedAt (SetCreatedAt m t0) t0) = ID m"
  "DeletedAt (SetUpdatedAt (SetCreatedAt m t0) t0) = DeletedAt m"
  "CreatedAt (SetUpdatedAt (SetCreatedAt m t0) t0) = t0"
  "UpdatedAt (SetUpdatedAt (SetCreatedAt m t0) t0) = t0"
  by (simp_all add: SetCreatedAt_def SetUpdatedAt_def)

lemma DB_Insert_traced_bind:
  assumes "Now (d_clock d) w = (t0, w1)"
    and "db_BindNamed (d_db d) (InsertQ arg) (SetUpdatedAt (SetCreatedAt arg t0) t0) = Inl e"
  shows "DB_Insert (traced_DB d) arg (w, l) =
           (Some e, SetUpdatedAt (SetCreatedAt arg t0) t0, w1, l @ [EvNow t0])"
  using assms
  by (simp add: DB_Insert_def Let_def traced_DB_simps traced_Now traced_db_BindNamed stamp_fields)

lemma DB_Insert_traced_exec:
  assumes "Now (d_clock d) w = (t0, w1)"
    and "db_BindNamed (d_db d) (InsertQ arg) (SetUpdatedAt (SetCreatedAt arg t0) t0) = Inr (q, qargs)"
    and "WithExecInsert arg"
    and "db_ExecContext (d_db d) q qargs w1 = (res, w2)"
  shows "DB_Insert (traced_DB d) arg (w, l) =
           (case res of Inl e \<Rightarrow> Some e | Inr rr \<Rightarrow> RowsAffected rr 1,
            SetUpdatedAt (SetCreatedAt arg t0) t0, w2, l @ [EvNow t0, EvExec q qargs res])"
  using assms
  by (simp add: DB_Insert_def DB_insertWithExec_def Let_def traced_DB_simps traced_Now
      traced_db_BindNamed traced_ExecContext stamp_fields split: sum.splits)

lemma DB_Insert_traced_scan:
  assumes "Now (d_clock d) w = (t0, w1)"
    and "db_BindNamed (d_db d) (InsertQ arg) (SetUpdatedAt (SetCreatedAt arg t0) t0) = Inr (q, qargs)"
    and "\<not> WithExecInsert arg"
    and "db_QueryRowContext_Scan (d_db d) q qargs w1 = (res, w2)"
  shows "DB_Insert (traced_DB d) arg (w, l) =
           (case res of Inl e \<Rightarrow> Some e | Inr id' \<Rightarrow> None,
            case res of Inl e \<Rightarrow> SetUpdatedAt (SetCreatedAt arg t0) t0
                      | Inr id' \<Rightarrow> SetID (SetUpdatedAt (SetCreatedAt arg t0) t0) id',
            w2, l @ [EvNow t0, EvQueryRow q qargs res])"
  using assms
  by (simp add: DB_Insert_def Let_def traced_DB_simps traced_Now
      traced_db_BindNamed traced_QueryRow stamp_fields split: sum.splits)

lemma DB_Insert_fails_traced:
  assumes now: "Now (d_clock d) w = (t0, w1)"
    and f: "insert_fails (db_BindNamed (d_db d)) (db_ExecContext (d_db d))
            (db_QueryRowContext_Scan (d_db d)) (SetUpdatedAt (SetCreatedAt arg t0) t0) w1 err w'"
  shows "\<exists>evs. DB_Insert (traced_DB d) arg (w, l) =
           (Some err, SetUpdatedAt (SetCreatedAt arg t0) t0, w', l @ EvNow t0 # evs) \<and>
         (case db_BindNamed (d_db d) (InsertQ arg) (SetUpdatedAt (SetCreatedAt arg t0) t0) of
            Inl e \<Rightarrow> evs = []
          | Inr (q, qargs) \<Rightarrow>
              \<exists>res. evs = [if WithExecInsert arg then EvExec q qargs res
                           else EvQueryRow q qargs (Inl err)])"
proof (cases "db_BindNamed (d_db d) (InsertQ arg) (SetUpdatedAt (SetCreatedAt arg t0) t0)")
  case (Inl e)
  with f have "e = err" "w' = w1"
    by (simp_all add: insert_fails_def stamp_fields)
  with DB_Insert_traced_bind [OF now Inl, of l] Inl show ?thesis
    by simp
next
  case (Inr qa)
  obtain q qargs where qa: "qa = (q, qargs)" by (cases qa)
  note b = Inr [unfolded qa]
  show ?thesis
  proof (cases "WithExecInsert arg")
    case True
    obtain res w2 where ex: "db_ExecContext (d_db d) q qargs w1 = (res, w2)"
      by (cases "db_ExecContext (d_db d) q qargs w1")
    from f b True ex have "w' = w2"
      and "(case res of Inl e \<Rightarrow> Some e | Inr rr \<Rightarrow> RowsAffected rr 1) = Some err"
      by (auto simp add: insert_fails_def stamp_fields RowsAffected_def split: sum.splits)
    with DB_Insert_traced_exec [OF now b True ex, of l] b True show ?thesis
      by auto
  next
    case False
    obtain res w2 where sc: "db_QueryRowContext_Scan (d_db d) q qargs w1 = (res, w2)"
      by (cases "db_QueryRowContext_Scan (d_db d) q qargs w1")
    from f b False sc have "w' = w2" and "res = Inl err"
      by (auto simp add: insert_fails_def stamp_fields split: sum.splits)
    with DB_Insert_traced_scan [OF now b False sc, of l] b False show ?thesis
      by auto
  qed
qed

text \<open>
  C5 (as amended). Let \<open>t0\<close> be the instant \<open>Insert\<close> reads from the clock. \<open>Insert\<close>
  returns an error \<open>err\<close> exactly when a stage fails with \<open>err\<close> on the entity with its
  timestamps set to \<open>t0\<close>: the backend fails to bind the template, or fails the
  statement, or reports a row count other than one, or fails the scan of the returned id.
  Whenever a stage fails so, \<open>Insert\<close> returns that error as it is, and the entity it
  returns is the entity given with its created and updated timestamps set to \<open>t0\<close> and
  nothing else changed: its id is the id it had. No later stage has run: when binding
  fails, the clock reading is the only call made; otherwise one statement has been sent,
  the one \<open>BindNamed\<close> returned, and nothing after it.
\<close>

theorem Insert_failure:
  assumes now: "Now (d_clock d) w = (t0, w1)"
  shows "((DB_Insert d arg w = (Some err, arg', w')) =
            (arg' = SetUpdatedAt (SetCreatedAt arg t0) t0 \<and>
             insert_fails (db_BindNamed (d_db d)) (db_ExecContext (d_db d))
               (db_QueryRowContext_Scan (d_db d))
               (SetUpdatedAt (SetCreatedAt arg t0) t0) w1 err w')) \<and>
         (insert_fails (db_BindNamed (d_db d)) (db_ExecContext (d_db d))
            (db_QueryRowContext_Scan (d_db d))
            (SetUpdatedAt (SetCreatedAt arg t0) t0) w1 err w' \<longrightarrow>
            DB_Insert d arg w = (Some err, SetUpdatedAt (SetCreatedAt arg t0) t0, w') \<and>
            ID (SetUpdatedAt (SetCreatedAt arg t0) t0) = ID arg \<and>
            DeletedAt (SetUpdatedAt (SetCreatedAt arg t0) t0) = DeletedAt arg \<and>
            CreatedAt (SetUpdatedAt (SetCreatedAt arg t0) t0) = t0 \<and>
            UpdatedAt (SetUpdatedAt (SetCreatedAt arg t0) t0) = t0 \<and>
            (\<exists>evs. DB_Insert (traced_DB d) arg (w, l) =
                     (Some err, SetUpdatedAt (SetCreatedAt arg t0) t0, w', l @ EvNow t0 # evs) \<and>
                   (case db_BindNamed (d_db d) (InsertQ arg)
                           (SetUpdatedAt (SetCreatedAt arg t0) t0) of
                      Inl e \<Rightarrow> evs = []
                    | Inr (q, qargs) \<Rightarrow>
                        \<exists>res. evs = [if WithExecInsert arg then EvExec q qargs res
                                     else EvQueryRow q qargs (Inl err)])))"
  using DB_Insert_fails_iff [OF now, of arg err arg' w']
    DB_Insert_fails_iff [OF now, of arg err "SetUpdatedAt (SetCreatedAt arg t0) t0" w']
    DB_Insert_fails_traced [OF now, of arg err w' l]
  by (simp add: stamp_fields)

lemma mem_now:
  "Now (d_clock (mem_DB False :: (Model, mem_world) DB)) (mem_w 0 0 0) = (7, mem_w 1 0 0)"
  by (simp add: mem_defs)

theorem Insert_failure_witness:
  "DB_Insert (mem_DB False) (person ''1'' []) (mem_w 0 0 0) =
     (Some (BackendError ''bind''),
      SetUpdatedAt (SetCreatedAt (person ''1'' []) 7) 7, mem_w 1 0 0) \<and>
   DB_Insert (mem_DB False) (person_extra ''1'' ''fail'') (mem_w 0 0 0) =
     (Some (BackendError ''exec''),
      SetUpdatedAt (SetCreatedAt (person_extra ''1'' ''fail'') 7) 7, mem_w 1 0 0) \<and>
   DB_Insert (mem_DB False) (person_extra ''1'' ''none'') (mem_w 0 0 0) =
     (Some ErrNoRows,
      SetUpdatedAt (SetCreatedAt (person_extra ''1'' ''none'') 7) 7, mem_w 1 0 0) \<and>
   DB_Insert (mem_DB False) (person_extra ''1'' ''many'') (mem_w 0 0 0) =
     (Some (UnexpectedRows 2 1),
      SetUpdatedAt (SetCreatedAt (person_extra ''1'' ''many'') 7) 7, mem_w 1 0 2) \<and>
   DB_Insert (mem_DB False) (person ''1'' ''fail'') (mem_w 0 0 0) =
     (Some (BackendError ''unique violation''),
      SetUpdatedAt (SetCreatedAt (person ''1'' ''fail'') 7) 7, mem_w 1 0 0) \<and>
   ID (SetUpdatedAt (SetCreatedAt (person ''1'' ''fail'') 7) 7) = ''1''"
proof -
  let ?d = "mem_DB False :: (Model, mem_world) DB"
  have bind: "insert_fails (db_BindNamed (d_db ?d)) (db_ExecContext (d_db ?d))
      (db_QueryRowContext_Scan (d_db ?d)) (SetUpdatedAt (SetCreatedAt (person ''1'' []) 7) 7)
      (mem_w 1 0 0) (BackendError ''bind'') (mem_w 1 0 0)"
    by (simp add: insert_fails_def mem_defs setter_defs)
  have exec: "insert_fails (db_BindNamed (d_db ?d)) (db_ExecContext (d_db ?d))
      (db_QueryRowContext_Scan (d_db ?d))
      (SetUpdatedAt (SetCreatedAt (person_extra ''1'' ''fail'') 7) 7)
      (mem_w 1 0 0) (BackendError ''exec'') (mem_w 1 0 0)"
    by (simp add: insert_fails_def mem_defs setter_defs)
  have none: "insert_fails (db_BindNamed (d_db ?d)) (db_ExecContext (d_db ?d))
      (db_QueryRowContext_Scan (d_db ?d))
      (SetUpdatedAt (SetCreatedAt (person_extra ''1'' ''none'') 7) 7)
      (mem_w 1 0 0) ErrNoRows (mem_w 1 0 0)"
    by (simp add: insert_fails_def mem_defs setter_defs)
  have many: "insert_fails (db_BindNamed (d_db ?d)) (db_ExecContext (d_db ?d))
      (db_QueryRowContext_Scan (d_db ?d))
      (SetUpdatedAt (SetCreatedAt (person_extra ''1'' ''many'') 7) 7)
      (mem_w 1 0 0) (UnexpectedRows 2 1) (mem_w 1 0 2)"
    by (simp add: insert_fails_def mem_defs setter_defs)
  have scan: "insert_fails (db_BindNamed (d_db ?d)) (db_ExecContext (d_db ?d))
      (db_QueryRowContext_Scan (d_db ?d))
      (SetUpdatedAt (SetCreatedAt (person ''1'' ''fail'') 7) 7)
      (mem_w 1 0 0) (BackendError ''unique violation'') (mem_w 1 0 0)"
    by (simp add: insert_fails_def mem_defs setter_defs)
  from Insert_failure [OF mem_now, THEN conjunct2, rule_format, OF bind]
    Insert_failure [OF mem_now, THEN conjunct2, rule_format, OF exec]
    Insert_failure [OF mem_now, THEN conjunct2, rule_format, OF none]
    Insert_failure [OF mem_now, THEN conjunct2, rule_format, OF many]
    Insert_failure [OF mem_now, THEN conjunct2, rule_format, OF scan]
  show ?thesis
    by (simp add: person_def setter_defs)
qed

text \<open>
  C5 (as stated) fails: the timestamps are set before binding, so after a failed insert
  the caller sees an entity whose created and updated timestamps have changed.
\<close>

theorem Insert_failure_mutates_counterexample:
  "fst (DB_Insert (mem_DB False) (person ''1'' ''fail'') (mem_w 0 0 0)) = Some (BackendError ''unique violation'') \<and>
   fst (snd (DB_Insert (mem_DB False) (person ''1'' ''fail'') (mem_w 0 0 0))) \<noteq> person ''1'' ''fail'' \<and>
   CreatedAt (person ''1'' ''fail'') = 0 \<and>
   CreatedAt (fst (snd (DB_Insert (mem_DB False) (person ''1'' ''fail'') (mem_w 0 0 0)))) = 7 \<and>
   UpdatedAt (person ''1'' ''fail'') = 0 \<and>
   UpdatedAt (fst (snd (DB_Insert (mem_DB False) (person ''1'' ''fail'') (mem_w 0 0 0)))) = 7 \<and>
   ID (fst (snd (DB_Insert (mem_DB False) (person ''1'' ''fail'') (mem_w 0 0 0)))) = ''1''"
  by (simp add: DB_Insert_def mem_defs setter_defs)

subsection \<open>Batch insert\<close>

lemma InsertBatch_body_traced:
  assumes "InsertBatch_body tx t0 a h w = (r, h', w')"
  shows "\<exists>evs. InsertBatch_body (traced_Tx tx) t0 a h (w, l) = (r, h', w', l @ evs) \<and>
               list_all is_tx_insert evs"
  using assms
  by (auto simp add: InsertBatch_body_def Let_def traced_tx_BindNamed traced_tx_Exec
      traced_tx_QueryRow is_tx_insert_def
      split: sum.splits prod.splits if_splits option.splits)

lemma InsertBatch_loop_traced:
  assumes "InsertBatch_loop tx t0 args h w = (r, h', w')"
  shows "\<exists>evs. InsertBatch_loop (traced_Tx tx) t0 args h (w, l) = (r, h', w', l @ evs) \<and>
               list_all is_tx_insert evs"
  using assms
proof (induction args arbitrary: h w l)
  case Nil
  then show ?case by simp
next
  case (Cons a args)
  obtain r1 h1 w1 where b: "InsertBatch_body tx t0 a h w = (r1, h1, w1)"
    by (cases "InsertBatch_body tx t0 a h w")
  from InsertBatch_body_traced [OF b, of l] obtain evs1
    where tb: "InsertBatch_body (traced_Tx tx) t0 a h (w, l) = (r1, h1, w1, l @ evs1)"
      and e1: "list_all is_tx_insert evs1"
    by blast
  show ?case
  proof (cases r1)
    case (Some e)
    with Cons.prems b tb e1 show ?thesis by auto
  next
    case None
    with Cons.prems b have "InsertBatch_loop tx t0 args h1 w1 = (r, h', w')"
      by simp
    from Cons.IH [OF this, of "l @ evs1"] obtain evs2
      where tl: "InsertBatch_loop (traced_Tx tx) t0 args h1 (w1, l @ evs1) = (r, h', w', (l @ evs1) @ evs2)"
        and e2: "list_all is_tx_insert evs2"
      by blast
    from None tb tl e1 e2 show ?thesis
      by (intro exI [of _ "evs1 @ evs2"]) simp
  qed
qed

lemma InsertBatch_loop_append:
  "InsertBatch_loop tx t0 (xs @ ys) h w =
     (case InsertBatch_loop tx t0 xs h w of
        (Some err, h', w') \<Rightarrow> (Some err, h', w')
      | (None, h', w') \<Rightarrow> InsertBatch_loop tx t0 ys h' w')"
  by (induction xs arbitrary: h w) (auto split: prod.splits option.splits)

lemma InsertBatch_body_store:
  assumes "InsertBatch_body tx t0 a h w = (r, h', w')"
  shows "(\<forall>p. p \<noteq> a \<longrightarrow> h' p = h p) \<and> stamped t0 (h' a) \<and>
         (r \<noteq> None \<longrightarrow> h' = h(a := SetUpdatedAt (SetCreatedAt (h a) t0) t0))"
  using assms
  by (auto simp add: InsertBatch_body_def Let_def stamped_def SetCreatedAt_def SetUpdatedAt_def
      SetID_def split: sum.splits prod.splits if_splits option.splits)

lemma InsertBatch_loop_store:
  assumes "InsertBatch_loop tx t0 args h w = (r, h', w')"
  shows "(\<forall>p. h' p = h p \<or> stamped t0 (h' p)) \<and>
         (\<forall>p. stamped t0 (h p) \<longrightarrow> stamped t0 (h' p)) \<and>
         (\<forall>p. p \<notin> set args \<longrightarrow> h' p = h p) \<and>
         (r = None \<longrightarrow> (\<forall>a\<in>set args. stamped t0 (h' a)))"
  using assms
proof (induction args arbitrary: h w)
  case Nil
  then show ?case by simp
next
  case (Cons a args)
  obtain r1 h1 w1 where b: "InsertBatch_body tx t0 a h w = (r1, h1, w1)"
    by (cases "InsertBatch_body tx t0 a h w")
  note s1 = InsertBatch_body_store [OF b]
  show ?case
  proof (cases r1)
    case (Some e)
    with Cons.prems b have "h' = h1" "r = Some e" by simp_all
    with s1 show ?thesis by (metis option.distinct(1) set_ConsD list.set_intros(1))
  next
    case None
    with Cons.prems b have l: "InsertBatch_loop tx t0 args h1 w1 = (r, h', w')"
      by simp
    note s2 = Cons.IH [OF l]
    show ?thesis
    proof (intro conjI allI impI ballI)
      fix p
      show "h' p = h p \<or> stamped t0 (h' p)"
        using s1 s2 by metis
    next
      fix p assume "stamped t0 (h p)"
      then show "stamped t0 (h' p)"
        using s1 s2 by metis
    next
      fix p assume "p \<notin> set (a # args)"
      then show "h' p = h p"
        using s1 s2 by simp
    next
      fix x assume "r = None" "x \<in> set (a # args)"
      then show "stamped t0 (h' x)"
        using s1 s2 by auto
    qed
  qed
qed


lemma tx_insert_events:
  assumes "list_all is_tx_insert evs"
  shows "list_all (\<lambda>ev. \<not> is_clock_read ev) evs" and "list_all (\<lambda>ev. \<not> is_commit ev) evs"
    and "EvCommit e \<notin> set evs"
  using assms
  by (auto simp add: list_all_iff is_tx_insert_def is_clock_read_def is_commit_def
      split: event.splits)


lemma DB_InsertBatch_loop_fails:
  assumes "Now (d_clock d) w = (t0, w1)"
    and "db_BeginTxx (d_db d) w1 = (Inr tx, w2)"
    and "InsertBatch_loop tx t0 args h w2 = (Some err, h', w3)"
    and "tx_Rollback tx w3 = (rb, w5)"
  shows "DB_InsertBatch d args h w = (Some err, h', w5)"
    and "\<exists>evs. DB_InsertBatch (traced_DB d) args h (w, l) =
           (Some err, h', w5, l @ [EvNow t0, EvBeginTxx None] @ evs @ [EvRollback rb]) \<and>
           list_all is_tx_insert evs"
proof -
  show "DB_InsertBatch d args h w = (Some err, h', w5)"
    using assms by (simp add: DB_InsertBatch_def)
  from InsertBatch_loop_traced [OF assms(3), of "l @ [EvNow t0, EvBeginTxx None]"]
  obtain evs where
    tl: "InsertBatch_loop (traced_Tx tx) t0 args h (w2, l @ [EvNow t0, EvBeginTxx None]) =
           (Some err, h', w3, (l @ [EvNow t0, EvBeginTxx None]) @ evs)"
    and ev: "list_all is_tx_insert evs"
    by blast
  have "DB_InsertBatch (traced_DB d) args h (w, l) =
           (Some err, h', w5, l @ [EvNow t0, EvBeginTxx None] @ evs @ [EvRollback rb])"
    using assms(1,2,4) tl
    by (simp add: DB_InsertBatch_def traced_DB_simps traced_Now traced_db_BeginTxx
        traced_tx_Rollback)
  with ev show "\<exists>evs. DB_InsertBatch (traced_DB d) args h (w, l) =
           (Some err, h', w5, l @ [EvNow t0, EvBeginTxx None] @ evs @ [EvRollback rb]) \<and>
           list_all is_tx_insert evs"
    by blast
qed






lemma InsertBatch_body_fails_iff:
  "(InsertBatch_body tx t0 a h w = (Some err, h', w')) =
     (h' = h(a := SetUpdatedAt (SetCreatedAt (h a) t0) t0) \<and>
      insert_fails (tx_BindNamed tx) (tx_Exec tx) (tx_QueryRow_Scan tx)
        (SetUpdatedAt (SetCreatedAt (h a) t0) t0) w err w')"
  by (auto simp add: InsertBatch_body_def insert_fails_def Let_def RowsAffected_def
      split: sum.splits prod.splits if_splits)

lemma InsertBatch_body_ok_iff:
  "(InsertBatch_body tx t0 a h w = (None, h', w')) =
     (case tx_BindNamed tx (InsertQ (h a)) (SetUpdatedAt (SetCreatedAt (h a) t0) t0) of
        Inl e \<Rightarrow> False
      | Inr (q, qargs) \<Rightarrow>
          if WithExecInsert (h a) then
            tx_Exec tx q qargs w = (Inr (Inr 1), w') \<and>
            h' = h(a := SetUpdatedAt (SetCreatedAt (h a) t0) t0)
          else
            (\<exists>id'. tx_QueryRow_Scan tx q qargs w = (Inr id', w') \<and>
                   h' = h(a := SetID (SetUpdatedAt (SetCreatedAt (h a) t0) t0) id')))"
  by (auto simp add: InsertBatch_body_def Let_def RowsAffected_def SetCreatedAt_def
      SetUpdatedAt_def
      split: sum.splits prod.splits if_splits)

text \<open>
  C1. Let the transaction have begun, let the inserts of the entities \<open>pre\<close> at the
  front of the batch have gone through, leaving the store \<open>h1\<close> and the world \<open>w3\<close>,
  and let the insert of the next entity \<open>a\<close> fail there with \<open>err\<close>: the backend fails
  to bind its template, or fails its statement, or reports a row count other than one, or
  fails the scan of the returned id. Then \<open>InsertBatch\<close> returns \<open>err\<close>, the first
  error met; the calls it has made are the clock reading, the begin, the statements of the
  inserts and, last, the rollback of the transaction: no commit; the entities after \<open>a\<close>
  are not looked at. The store it leaves is \<open>h1\<close>, the store left by the inserts of
  \<open>pre\<close>, with \<open>a\<close> stamped: the ids and timestamps written to the earlier
  entities stay, though the transaction is rolled back.
\<close>

theorem InsertBatch_failure_rolls_back:
  assumes now: "Now (d_clock d) w = (t0, w1)"
    and beg: "db_BeginTxx (d_db d) w1 = (Inr tx, w2)"
    and pre: "InsertBatch_loop tx t0 pre h w2 = (None, h1, w3)"
    and fail: "insert_fails (tx_BindNamed tx) (tx_Exec tx) (tx_QueryRow_Scan tx)
                 (SetUpdatedAt (SetCreatedAt (h1 a) t0) t0) w3 err w4"
  shows "\<exists>evs rb w5.
           tx_Rollback tx w4 = (rb, w5) \<and>
           DB_InsertBatch d (pre @ a # post) h w =
             (Some err, h1(a := SetUpdatedAt (SetCreatedAt (h1 a) t0) t0), w5) \<and>
           DB_InsertBatch (traced_DB d) (pre @ a # post) h (w, l) =
             (Some err, h1(a := SetUpdatedAt (SetCreatedAt (h1 a) t0) t0), w5,
              l @ [EvNow t0, EvBeginTxx None] @ evs @ [EvRollback rb]) \<and>
           list_all is_tx_insert evs \<and>
           \<not> list_ex is_commit evs \<and>
           (\<forall>p\<in>set pre. stamped t0 ((h1(a := SetUpdatedAt (SetCreatedAt (h1 a) t0) t0)) p)) \<and>
           (\<forall>p. p \<notin> set pre \<longrightarrow> h1 p = h p)"
proof -
  define h2 where "h2 = h1(a := SetUpdatedAt (SetCreatedAt (h1 a) t0) t0)"
  have body: "InsertBatch_body tx t0 a h1 w3 = (Some err, h2, w4)"
    using fail by (simp add: InsertBatch_body_fails_iff h2_def)
  obtain rb w5 where rb: "tx_Rollback tx w4 = (rb, w5)"
    by (cases "tx_Rollback tx w4")
  have lp: "InsertBatch_loop tx t0 (pre @ a # post) h w2 = (Some err, h2, w4)"
    using pre body by (simp add: InsertBatch_loop_append)
  note f = DB_InsertBatch_loop_fails [OF now beg lp rb]
  from f(2) [of l] obtain evs where
    t: "DB_InsertBatch (traced_DB d) (pre @ a # post) h (w, l) =
           (Some err, h2, w5, l @ [EvNow t0, EvBeginTxx None] @ evs @ [EvRollback rb])"
    and ev: "list_all is_tx_insert evs"
    by blast
  have nc: "\<not> list_ex is_commit evs"
    using tx_insert_events(2) [OF ev] by (simp add: list_ex_iff list_all_iff)
  note sb = InsertBatch_body_store [OF body]
  have "\<forall>p\<in>set pre. stamped t0 (h1 p)"
    using InsertBatch_loop_store [OF pre] by simp
  with sb have st: "\<forall>p\<in>set pre. stamped t0 (h2 p)"
    by metis
  have fr: "\<forall>p. p \<notin> set pre \<longrightarrow> h1 p = h p"
    using InsertBatch_loop_store [OF pre] by simp
  from rb f(1) t ev nc st fr show ?thesis
    unfolding h2_def by blast
qed

lemma mem_begin:
  "db_BeginTxx (d_db (mem_DB False :: (Model, mem_world) DB)) (mem_w 1 0 0) =
     (Inr mem_Tx, mem_w 1 0 0)"
  by (simp add: mem_defs)

lemma mem_prefix:
  "InsertBatch_loop mem_Tx 7 [0] (mem_batch q ex) (mem_w 1 0 0) =
     (None,
      (mem_batch q ex)(0 := SetID (SetUpdatedAt (SetCreatedAt (mem_batch q ex 0) 7) 7) ''id''),
      mem_w 1 1 0)"
  by (simp add: InsertBatch_body_def Let_def mem_defs setter_defs)

theorem InsertBatch_failure_rolls_back_witness:
  "DB_InsertBatch (mem_DB False) [0, 1, 2] (mem_batch [] False) (mem_w 0 0 0) =
     (Some (BackendError ''bind''),
      (mem_batch [] False)
        (0 := SetID (SetUpdatedAt (SetCreatedAt (mem_batch [] False 0) 7) 7) ''id'',
         1 := SetUpdatedAt (SetCreatedAt (mem_batch [] False 1) 7) 7),
      mem_w 1 0 0) \<and>
   DB_InsertBatch (mem_DB False) [0, 1, 2] (mem_batch ''fail'' True) (mem_w 0 0 0) =
     (Some (BackendError ''exec''),
      (mem_batch ''fail'' True)
        (0 := SetID (SetUpdatedAt (SetCreatedAt (mem_batch ''fail'' True 0) 7) 7) ''id'',
         1 := SetUpdatedAt (SetCreatedAt (mem_batch ''fail'' True 1) 7) 7),
      mem_w 1 0 0) \<and>
   DB_InsertBatch (mem_DB False) [0, 1, 2] (mem_batch ''none'' True) (mem_w 0 0 0) =
     (Some ErrNoRows,
      (mem_batch ''none'' True)
        (0 := SetID (SetUpdatedAt (SetCreatedAt (mem_batch ''none'' True 0) 7) 7) ''id'',
         1 := SetUpdatedAt (SetCreatedAt (mem_batch ''none'' True 1) 7) 7),
      mem_w 1 0 0) \<and>
   DB_InsertBatch (mem_DB False) [0, 1, 2] (mem_batch ''many'' True) (mem_w 0 0 0) =
     (Some (UnexpectedRows 2 1),
      (mem_batch ''many'' True)
        (0 := SetID (SetUpdatedAt (SetCreatedAt (mem_batch ''many'' True 0) 7) 7) ''id'',
         1 := SetUpdatedAt (SetCreatedAt (mem_batch ''many'' True 1) 7) 7),
      mem_w 1 0 0) \<and>
   DB_InsertBatch (mem_DB False) [0, 1, 2] (mem_batch ''fail'' False) (mem_w 0 0 0) =
     (Some (BackendError ''unique violation''),
      (mem_batch ''fail'' False)
        (0 := SetID (SetUpdatedAt (SetCreatedAt (mem_batch ''fail'' False 0) 7) 7) ''id'',
         1 := SetUpdatedAt (SetCreatedAt (mem_batch ''fail'' False 1) 7) 7),
      mem_w 1 0 0) \<and>
   (\<exists>evs. snd (snd (snd (DB_InsertBatch (traced_DB (mem_DB False)) [0, 1, 2]
                            (mem_batch ''fail'' False) (mem_w 0 0 0, [])))) =
            [EvNow 7, EvBeginTxx None] @ evs @ [EvRollback None] \<and>
          \<not> list_ex is_commit evs)"
proof -
  have bind: "insert_fails (tx_BindNamed mem_Tx) (tx_Exec mem_Tx) (tx_QueryRow_Scan mem_Tx)
      (SetUpdatedAt (SetCreatedAt
        (((mem_batch [] False)
            (0 := SetID (SetUpdatedAt (SetCreatedAt (mem_batch [] False 0) 7) 7) ''id'')) 1) 7) 7)
      (mem_w 1 1 0) (BackendError ''bind'') (mem_w 1 1 0)"
    by (simp add: insert_fails_def mem_defs setter_defs)
  have exec: "insert_fails (tx_BindNamed mem_Tx) (tx_Exec mem_Tx) (tx_QueryRow_Scan mem_Tx)
      (SetUpdatedAt (SetCreatedAt
        (((mem_batch ''fail'' True)
            (0 := SetID (SetUpdatedAt (SetCreatedAt (mem_batch ''fail'' True 0) 7) 7) ''id'')) 1)
        7) 7)
      (mem_w 1 1 0) (BackendError ''exec'') (mem_w 1 1 0)"
    by (simp add: insert_fails_def mem_defs setter_defs)
  have none: "insert_fails (tx_BindNamed mem_Tx) (tx_Exec mem_Tx) (tx_QueryRow_Scan mem_Tx)
      (SetUpdatedAt (SetCreatedAt
        (((mem_batch ''none'' True)
            (0 := SetID (SetUpdatedAt (SetCreatedAt (mem_batch ''none'' True 0) 7) 7) ''id'')) 1)
        7) 7)
      (mem_w 1 1 0) ErrNoRows (mem_w 1 1 0)"
    by (simp add: insert_fails_def mem_defs setter_defs)
  have many: "insert_fails (tx_BindNamed mem_Tx) (tx_Exec mem_Tx) (tx_QueryRow_Scan mem_Tx)
      (SetUpdatedAt (SetCreatedAt
        (((mem_batch ''many'' True)
            (0 := SetID (SetUpdatedAt (SetCreatedAt (mem_batch ''many'' True 0) 7) 7) ''id'')) 1)
        7) 7)
      (mem_w 1 1 0) (UnexpectedRows 2 1) (mem_w 1 3 0)"
    by (simp add: insert_fails_def mem_defs setter_defs)
  have scan: "insert_fails (tx_BindNamed mem_Tx) (tx_Exec mem_Tx) (tx_QueryRow_Scan mem_Tx)
      (SetUpdatedAt (SetCreatedAt
        (((mem_batch ''fail'' False)
            (0 := SetID (SetUpdatedAt (SetCreatedAt (mem_batch ''fail'' False 0) 7) 7) ''id'')) 1)
        7) 7)
      (mem_w 1 1 0) (BackendError ''unique violation'') (mem_w 1 1 0)"
    by (simp add: insert_fails_def mem_defs setter_defs)
  from InsertBatch_failure_rolls_back [OF mem_now mem_begin mem_prefix bind, of "[2]" "[]"]
    InsertBatch_failure_rolls_back [OF mem_now mem_begin mem_prefix exec, of "[2]" "[]"]
    InsertBatch_failure_rolls_back [OF mem_now mem_begin mem_prefix none, of "[2]" "[]"]
    InsertBatch_failure_rolls_back [OF mem_now mem_begin mem_prefix many, of "[2]" "[]"]
    InsertBatch_failure_rolls_back [OF mem_now mem_begin mem_prefix scan, of "[2]" "[]"]
  show ?thesis
    by (auto simp add: mem_Tx_def mem_w_def)
qed

end
